theory Spec2Isabelle
  imports Complex_Main "HOL-Library.AList"
begin

section \<open>Python strings\<close>

text \<open>
  The parser of \<^verbatim>\<open>medicine_parser.py\<close> works on Python \<^verbatim>\<open>str\<close> values. A character of
  the model is a code point below 256; on these the character classes below are the ones of
  Python 3: \<^verbatim>\<open>\d\<close> is \<^verbatim>\<open>0-9\<close>, and \<^verbatim>\<open>\s\<close>, \<^verbatim>\<open>str.strip()\<close> and
  \<^verbatim>\<open>str.isspace()\<close> share one set of twelve characters. Text with code points from 256 on
  is outside the model.
\<close>

definition is_digit :: "char \<Rightarrow> bool" where
  "is_digit c = (c \<in> set ''0123456789'')"

definition is_space :: "char \<Rightarrow> bool" where
  "is_space c = (c \<in> set [CHR 0x09, CHR 0x0A, CHR 0x0B, CHR 0x0C, CHR 0x0D,
                            CHR 0x1C, CHR 0x1D, CHR 0x1E, CHR 0x1F, CHR 0x20,
                            CHR 0x85, CHR 0xA0])"

definition upper_chars :: string where
  "upper_chars = ''ABCDEFGHIJKLMNOPQRSTUVWXYZ'' @
     [CHR 0xC0, CHR 0xC1, CHR 0xC2, CHR 0xC3, CHR 0xC4, CHR 0xC5, CHR 0xC6, CHR 0xC7,
      CHR 0xC8, CHR 0xC9, CHR 0xCA, CHR 0xCB, CHR 0xCC, CHR 0xCD, CHR 0xCE, CHR 0xCF,
      CHR 0xD0, CHR 0xD1, CHR 0xD2, CHR 0xD3, CHR 0xD4, CHR 0xD5, CHR 0xD6,
      CHR 0xD8, CHR 0xD9, CHR 0xDA, CHR 0xDB, CHR 0xDC, CHR 0xDD, CHR 0xDE]"

definition lower_chars :: string where
  "lower_chars = ''abcdefghijklmnopqrstuvwxyz'' @
     [CHR 0xE0, CHR 0xE1, CHR 0xE2, CHR 0xE3, CHR 0xE4, CHR 0xE5, CHR 0xE6, CHR 0xE7,
      CHR 0xE8, CHR 0xE9, CHR 0xEA, CHR 0xEB, CHR 0xEC, CHR 0xED, CHR 0xEE, CHR 0xEF,
      CHR 0xF0, CHR 0xF1, CHR 0xF2, CHR 0xF3, CHR 0xF4, CHR 0xF5, CHR 0xF6,
      CHR 0xF8, CHR 0xF9, CHR 0xFA, CHR 0xFB, CHR 0xFC, CHR 0xFD, CHR 0xFE]"

definition lower_chr :: "char \<Rightarrow> char" where
  "lower_chr c = (case map_of (zip upper_chars lower_chars) c of Some l \<Rightarrow> l | None \<Rightarrow> c)"

text \<open>\<^verbatim>\<open>s.lower()\<close>\<close>

definition lower :: "string \<Rightarrow> string" where
  "lower s = map lower_chr s"

text \<open>\<^verbatim>\<open>s.strip()\<close> and \<^verbatim>\<open>s.rstrip(chars)\<close>\<close>

definition rstrip_chars :: "string \<Rightarrow> string \<Rightarrow> string" where
  "rstrip_chars chars s = rev (dropWhile (\<lambda>c. c \<in> set chars) (rev s))"

definition strip :: "string \<Rightarrow> string" where
  "strip s = rev (dropWhile is_space (rev (dropWhile is_space s)))"

text \<open>\<^verbatim>\<open>s.startswith(p)\<close>\<close>

fun startswith :: "string \<Rightarrow> string \<Rightarrow> bool" where
  "startswith s [] = True"
| "startswith [] (p # ps) = False"
| "startswith (c # cs) (p # ps) = (c = p \<and> startswith cs ps)"

text \<open>\<^verbatim>\<open>sub in s\<close>\<close>

fun contains :: "string \<Rightarrow> string \<Rightarrow> bool" where
  "contains sub [] = (sub = [])"
| "contains sub (c # cs) = (startswith (c # cs) sub \<or> contains sub cs)"

text \<open>
  \<^verbatim>\<open>s.replace(old, new)\<close>: every occurrence of \<^verbatim>\<open>old\<close>, found from left to right without
  overlap, is replaced. For an empty \<^verbatim>\<open>old\<close> Python puts \<^verbatim>\<open>new\<close> before every character
  and at the end.
\<close>

function replace :: "string \<Rightarrow> string \<Rightarrow> string \<Rightarrow> string" where
  "replace old new s =
     (if old = [] then new @ concat (map (\<lambda>c. c # new) s)
      else if startswith s old then new @ replace old new (drop (length old) s)
      else (case s of [] \<Rightarrow> [] | c # cs \<Rightarrow> c # replace old new cs))"
  by pat_completeness auto
termination
proof (relation "measure (\<lambda>(old, new, s). length s)")
  show "wf (measure (\<lambda>(old, new, s). length s))" by simp
next
  fix old new s :: string
  assume "old \<noteq> []" and "startswith s old"
  then have "s \<noteq> []" by (cases s; cases old) auto
  with \<open>old \<noteq> []\<close>
  show "((old, new, drop (length old) s), (old, new, s)) \<in> measure (\<lambda>(old, new, s). length s)"
    by (cases s; cases old) auto
next
  fix old new s :: string and c cs
  assume "s = c # cs"
  then show "((old, new, cs), (old, new, s)) \<in> measure (\<lambda>(old, new, s). length s)"
    by simp
qed

text \<open>\<^verbatim>\<open>s[7:-3]\<close>, for any length of \<^verbatim>\<open>s\<close>\<close>

definition slice_7_minus3 :: "string \<Rightarrow> string" where
  "slice_7_minus3 s = take (length s - 3 - 7) (drop 7 s)"

section \<open>Regular expressions\<close>

text \<open>
  The patterns of the parser use literals, the classes \<^verbatim>\<open>\d\<close> and \<^verbatim>\<open>\s\<close>, the anchor
  \<^verbatim>\<open>^\<close>, sequence, alternation, greedy \<^verbatim>\<open>?\<close> on a group, and greedy \<^verbatim>\<open>*\<close> and
  \<^verbatim>\<open>+\<close> on a class. \<open>rmatch\<close> is a backtracking matcher as in Python's \<^verbatim>\<open>re\<close>: it
  returns what is left of the subject after each way of matching, in the order in which
  backtracking tries them, so that the head of the list is the match \<^verbatim>\<open>re\<close> reports.
\<close>

datatype cclass = Digit | Space

datatype regex =
    Lit string
  | Cls cclass
  | Bol
  | Seq regex regex
  | Alt regex regex
  | Opt regex
  | Star cclass
  | Plus cclass

fun in_class :: "cclass \<Rightarrow> char \<Rightarrow> bool" where
  "in_class Digit c = is_digit c"
| "in_class Space c = is_space c"

text \<open>A literal under \<^verbatim>\<open>re.IGNORECASE\<close> (\<open>ic\<close>) is compared after lowercasing.\<close>

fun lit_match :: "bool \<Rightarrow> string \<Rightarrow> string \<Rightarrow> string option" where
  "lit_match ic [] s = Some s"
| "lit_match ic (p # ps) [] = None"
| "lit_match ic (p # ps) (c # cs) =
     (if (if ic then lower_chr c = lower_chr p else c = p) then lit_match ic ps cs else None)"

text \<open>Greedy repetition of a class: the longest run first, then each shorter one.\<close>

fun many :: "cclass \<Rightarrow> string \<Rightarrow> string list" where
  "many k [] = [[]]"
| "many k (c # cs) = (if in_class k c then many k cs @ [c # cs] else [c # cs])"

fun rmatch :: "bool \<Rightarrow> bool \<Rightarrow> regex \<Rightarrow> string \<Rightarrow> string list" where
  "rmatch ic bos (Lit w) s = (case lit_match ic w s of None \<Rightarrow> [] | Some r \<Rightarrow> [r])"
| "rmatch ic bos (Cls k) s = (case s of [] \<Rightarrow> [] | c # cs \<Rightarrow> if in_class k c then [cs] else [])"
| "rmatch ic bos Bol s = (if bos then [s] else [])"
| "rmatch ic bos (Seq r1 r2) s =
     concat (map (\<lambda>s'. rmatch ic (bos \<and> length s' = length s) r2 s') (rmatch ic bos r1 s))"
| "rmatch ic bos (Alt r1 r2) s = rmatch ic bos r1 s @ rmatch ic bos r2 s"
| "rmatch ic bos (Opt r) s = rmatch ic bos r s @ [s]"
| "rmatch ic bos (Star k) s = many k s"
| "rmatch ic bos (Plus k) s = (case s of [] \<Rightarrow> [] | c # cs \<Rightarrow> if in_class k c then many k cs else [])"

text \<open>\<open>seqs\<close> and \<open>alts\<close> write a pattern with several parts in the order of the source.\<close>

definition seqs :: "regex \<Rightarrow> regex list \<Rightarrow> regex" where
  "seqs r rs = foldl Seq r rs"

definition alts :: "regex \<Rightarrow> regex list \<Rightarrow> regex" where
  "alts r rs = foldl Alt r rs"

text \<open>
  \<^verbatim>\<open>pattern.search(s)\<close>: the first position, from the left, at which the pattern matches;
  the result is \<^verbatim>\<open>group(0)\<close> of the match, \<open>None\<close> when there is no match.
\<close>

fun search_from :: "bool \<Rightarrow> bool \<Rightarrow> regex \<Rightarrow> string \<Rightarrow> string option" where
  "search_from ic bos r [] = (case rmatch ic bos r [] of [] \<Rightarrow> None | rest # _ \<Rightarrow> Some [])"
| "search_from ic bos r (c # cs) =
     (case rmatch ic bos r (c # cs) of
        [] \<Rightarrow> search_from ic False r cs
      | rest # _ \<Rightarrow> Some (take (length (c # cs) - length rest) (c # cs)))"

definition re_search :: "bool \<Rightarrow> regex \<Rightarrow> string \<Rightarrow> string option" where
  "re_search ic r s = search_from ic True r s"

text \<open>
  \<^verbatim>\<open>re.match\<close> of a pattern \<^verbatim>\<open>(r1)r2\<close> at the start of \<open>s\<close>; the result is
  \<^verbatim>\<open>group(1)\<close>, the text matched by \<open>r1\<close> in the first way of matching the whole pattern.
\<close>

definition re_match_group1 :: "bool \<Rightarrow> regex \<Rightarrow> regex \<Rightarrow> string \<Rightarrow> string option" where
  "re_match_group1 ic r1 r2 s =
     (case concat (map (\<lambda>s1. map (\<lambda>s2. s1) (rmatch ic (length s1 = length s) r2 s1))
                       (rmatch ic True r1 s)) of
        [] \<Rightarrow> None
      | s1 # _ \<Rightarrow> Some (take (length s - length s1) s))"

text \<open>
  \<^verbatim>\<open>re.sub(pattern, repl, s)\<close> for a pattern that consumes at least one character whenever
  it matches, as the three patterns given to \<^verbatim>\<open>re.sub\<close> in the parser do. Matches are
  replaced from left to right without overlap. (A match of the empty string, which these
  patterns never produce, is stepped over.)
\<close>

function re_sub :: "bool \<Rightarrow> regex \<Rightarrow> string \<Rightarrow> string \<Rightarrow> string" where
  "re_sub bos r repl s =
     (case rmatch False bos r s of
        [] \<Rightarrow> (case s of [] \<Rightarrow> [] | c # cs \<Rightarrow> c # re_sub False r repl cs)
      | rest # _ \<Rightarrow>
          if length rest < length s then repl @ re_sub False r repl rest
          else (case s of [] \<Rightarrow> [] | c # cs \<Rightarrow> c # re_sub False r repl cs))"
  by pat_completeness auto
termination
  by (relation "measure (\<lambda>(bos, r, repl, s). length s)") auto

section \<open>The compiled patterns\<close>

text \<open>\<^verbatim>\<open>\d+(?:\.\d+)?\<close>\<close>

definition decimal :: regex where
  "decimal = Seq (Plus Digit) (Opt (Seq (Lit ''.'') (Plus Digit)))"

text \<open>
  \<^verbatim>\<open>(\d+(?:\.\d+)?)\s*(?:micrograms|mcg|mg|g|ml|%)/(?:\d+(?:\.\d+)?)?\s*(?:ml|l)?|(\d+(?:\.\d+)?)\s*(?:micrograms|mcg|mg|g|ml)\<close>,
  compiled with \<^verbatim>\<open>re.IGNORECASE\<close>
\<close>

definition strength_pattern :: regex where
  "strength_pattern =
     Alt (seqs decimal
            [Star Space,
             alts (Lit ''micrograms'') [Lit ''mcg'', Lit ''mg'', Lit ''g'', Lit ''ml'', Lit ''%''],
             Lit ''/'',
             Opt decimal,
             Star Space,
             Opt (Alt (Lit ''ml'') (Lit ''l''))])
         (seqs decimal
            [Star Space,
             alts (Lit ''micrograms'') [Lit ''mcg'', Lit ''mg'', Lit ''g'', Lit ''ml'']])"

text \<open>
  \<^verbatim>\<open>(tablets?|capsules?|(?:pre-filled\s+)?syringes?|(?:transdermal\s+)?patches?|oral\s+solution|suspension|cream|ointment|injection|powder|liquid|ampoules?|bottles?)\<close>,
  compiled with \<^verbatim>\<open>re.IGNORECASE\<close>
\<close>

definition formulation_pattern :: regex where
  "formulation_pattern =
     alts (Seq (Lit ''tablet'') (Opt (Lit ''s'')))
       [Seq (Lit ''capsule'') (Opt (Lit ''s'')),
        seqs (Opt (Seq (Lit ''pre-filled'') (Plus Space))) [Lit ''syringe'', Opt (Lit ''s'')],
        seqs (Opt (Seq (Lit ''transdermal'') (Plus Space))) [Lit ''patche'', Opt (Lit ''s'')],
        seqs (Lit ''oral'') [Plus Space, Lit ''solution''],
        Lit ''suspension'',
        Lit ''cream'',
        Lit ''ointment'',
        Lit ''injection'',
        Lit ''powder'',
        Lit ''liquid'',
        Seq (Lit ''ampoule'') (Opt (Lit ''s'')),
        Seq (Lit ''bottle'') (Opt (Lit ''s''))]"

text \<open>
  \<^verbatim>\<open>(\d+(?:\.\d+)?)\s*(?:day|days|hour|hours|hr|hrs)\<close>, compiled with \<^verbatim>\<open>re.IGNORECASE\<close>
\<close>

definition duration_units :: regex where
  "duration_units = alts (Lit ''day'') [Lit ''days'', Lit ''hour'', Lit ''hours'', Lit ''hr'', Lit ''hrs'']"

definition patch_duration_pattern :: regex where
  "patch_duration_pattern = seqs decimal [Star Space, duration_units]"

section \<open>The duration normaliser\<close>

text \<open>
  \<^verbatim>\<open>clean_duration\<close>: the pattern \<^verbatim>\<open>(\d+)\s*(?:day|days|hour|hours|hr|hrs)\<close> is matched
  with \<^verbatim>\<open>re.match\<close>, without flags, on the lowercased and stripped text; the unit is then
  chosen by \<^verbatim>\<open>'hour' in duration or 'hr' in duration\<close>.
\<close>

definition clean_duration :: "string \<Rightarrow> string" where
  "clean_duration duration =
     (if duration = [] then []
      else let duration = strip (lower duration) in
        (case re_match_group1 False (Plus Digit) (Seq (Star Space) duration_units) duration of
           Some number \<Rightarrow>
             if contains ''hour'' duration \<or> contains ''hr'' duration
             then number @ '' hours''
             else number @ '' days''
         | None \<Rightarrow> []))"

section \<open>Values of Python\<close>

text \<open>
  What \<^verbatim>\<open>json.loads\<close> returns: \<^verbatim>\<open>None\<close>, a bool, an int, a float, a str, a list or a
  dict. A dict is an association list in insertion order with distinct keys, read with
  \<open>map_of\<close> and written with \<open>AList.update\<close>, which keeps the place of a key that is
  present and appends a new one, as a Python dict does.
\<close>

datatype pyfloat = Finite rat | Infinite bool | NaN

datatype pyval =
    PyNone
  | PyBool bool
  | PyInt int
  | PyFloat pyfloat
  | PyStr string
  | PyList "pyval list"
  | PyDict "(string \<times> pyval) list"

type_synonym dict = "(string \<times> pyval) list"

text \<open>The truth value of a Python object, as \<^verbatim>\<open>not x\<close> tests it.\<close>

fun truthy :: "pyval \<Rightarrow> bool" where
  "truthy PyNone = False"
| "truthy (PyBool b) = b"
| "truthy (PyInt i) = (i \<noteq> 0)"
| "truthy (PyFloat f) = (f \<noteq> Finite 0)"
| "truthy (PyStr s) = (s \<noteq> [])"
| "truthy (PyList xs) = (xs \<noteq> [])"
| "truthy (PyDict kvs) = (kvs \<noteq> [])"

text \<open>\<^verbatim>\<open>not d.get(k)\<close>: the key is missing (\<^verbatim>\<open>get\<close> gives \<^verbatim>\<open>None\<close>) or its value is falsy.\<close>

definition not_get :: "dict \<Rightarrow> string \<Rightarrow> bool" where
  "not_get d k = (case map_of d k of None \<Rightarrow> True | Some v \<Rightarrow> \<not> truthy v)"

text \<open>\<^verbatim>\<open>m.group(0) if m else ""\<close>\<close>

definition group0_or_empty :: "string option \<Rightarrow> string" where
  "group0_or_empty m = (case m of None \<Rightarrow> [] | Some g \<Rightarrow> g)"

section \<open>The model service and the JSON reader\<close>

text \<open>
  The parser sends two prompts to the chat-completion service, each built from the medicine
  string alone: the extraction prompt of \<^verbatim>\<open>extract_components\<close> and the duration prompt
  of \<^verbatim>\<open>get_patch_duration_from_llm\<close>. A call either raises or yields
  \<^verbatim>\<open>completion.choices[0].message.content\<close>, which is a string or \<^verbatim>\<open>None\<close>. The service
  is outside the program: it is a parameter giving the reply to the \<open>n\<close>-th call, and every
  function that may call it takes the number of calls made so far and returns the new number.

  \<^verbatim>\<open>json.loads\<close> belongs to the standard library; it is a parameter as well, \<open>None\<close>
  standing for \<^verbatim>\<open>JSONDecodeError\<close>.
\<close>

datatype request = ExtractQ string | DurationQ string

datatype reply = ServiceError | Content "string option"

type_synonym service = "nat \<Rightarrow> request \<Rightarrow> reply"

type_synonym json_reader = "string \<Rightarrow> pyval option"

datatype exn = ServiceException | AttributeError | JSONDecodeError | KeyError

section \<open>The parser\<close>

text \<open>\<^verbatim>\<open>'patch' in medicine_string.lower()\<close>\<close>

definition is_patch :: "string \<Rightarrow> bool" where
  "is_patch medicine_string = contains ''patch'' (lower medicine_string)"

text \<open>
  \<^verbatim>\<open>get_patch_duration_from_llm\<close>: any exception in the body, the service raising or
  \<^verbatim>\<open>.strip()\<close> on a content of \<^verbatim>\<open>None\<close>, is caught and gives the empty string.
\<close>

definition get_patch_duration_from_llm :: "service \<Rightarrow> nat \<Rightarrow> string \<Rightarrow> string \<times> nat" where
  "get_patch_duration_from_llm svc n medicine_string =
     (case svc n (DurationQ medicine_string) of
        ServiceError \<Rightarrow> ([], Suc n)
      | Content None \<Rightarrow> ([], Suc n)
      | Content (Some content) \<Rightarrow>
          (let duration = lower (strip content)
           in if duration = ''unknown'' then ([], Suc n)
              else (clean_duration duration, Suc n)))"

text \<open>The cleanup of the name in \<^verbatim>\<open>extract_components_regex\<close>, lines 150 to 159.\<close>

definition clean_name :: "string \<Rightarrow> string \<Rightarrow> string \<Rightarrow> string" where
  "clean_name medicine_string strength formulation =
     (let name = medicine_string;
          name = (if strength \<noteq> [] then replace strength [] name else name);
          name = (if formulation \<noteq> [] then replace formulation [] name else name);
          name = re_sub True (seqs Bol [Lit ''Generic'', Plus Space]) [] name;
          name = re_sub True (seqs (Plus Space) [Lit ''sterile'', Plus Space]) '' '' name;
          name = re_sub True (Plus Space) '' '' name
      in rstrip_chars '' -,.'' (strip name))"

definition extract_components_regex :: "service \<Rightarrow> nat \<Rightarrow> string \<Rightarrow> dict \<times> nat" where
  "extract_components_regex svc n medicine_string =
     (let strength = group0_or_empty (re_search True strength_pattern medicine_string);
          formulation = group0_or_empty (re_search True formulation_pattern medicine_string);
          name = clean_name medicine_string strength formulation;
          result = [(''name'', PyStr name), (''strength'', PyStr strength),
                    (''formulation'', PyStr formulation)]
      in if is_patch medicine_string
         then (case re_search True patch_duration_pattern medicine_string of
                 Some explicit_duration \<Rightarrow>
                   (AList.update ''duration'' (PyStr (clean_duration explicit_duration)) result, n)
               | None \<Rightarrow>
                   (let (d, n') = get_patch_duration_from_llm svc n medicine_string
                    in (AList.update ''duration'' (PyStr d) result, n')))
         else (result, n))"

text \<open>
  Lines 111 and 112: \<^verbatim>\<open>if response_text.startswith('```json'): response_text = response_text[7:-3]\<close>
\<close>

definition unfence :: "string \<Rightarrow> string" where
  "unfence response_text =
     (if startswith response_text ''```json'' then slice_7_minus3 response_text
      else response_text)"

text \<open>
  The body of the \<^verbatim>\<open>try\<close> blocks of \<^verbatim>\<open>extract_components\<close>, lines 83 to 132, with
  the exception it raises, if any. The service is called once, whatever happens next.
\<close>

definition extract_components_try ::
    "service \<Rightarrow> json_reader \<Rightarrow> nat \<Rightarrow> string \<Rightarrow> exn + (dict \<times> nat)" where
  "extract_components_try svc json_loads n medicine_string =
     (case svc n (ExtractQ medicine_string) of
        ServiceError \<Rightarrow> Inl ServiceException
      | Content None \<Rightarrow> Inl AttributeError
      | Content (Some response_text) \<Rightarrow>
          (let response_text = unfence response_text
           in case json_loads response_text of
                None \<Rightarrow> Inl JSONDecodeError
              | Some (PyDict result) \<Rightarrow>
                  (let result =
                         (if not_get result ''strength''
                          then AList.update ''strength''
                                 (PyStr (group0_or_empty
                                           (re_search True strength_pattern medicine_string)))
                                 result
                          else result);
                       result =
                         (if not_get result ''formulation''
                          then AList.update ''formulation''
                                 (PyStr (group0_or_empty
                                           (re_search True formulation_pattern medicine_string)))
                                 result
                          else result)
                   in if is_patch medicine_string
                      then (case re_search True patch_duration_pattern medicine_string of
                              Some explicit_duration \<Rightarrow>
                                Inr (AList.update ''duration''
                                       (PyStr (clean_duration explicit_duration)) result, Suc n)
                            | None \<Rightarrow>
                                if not_get result ''duration''
                                then (let (d, n') =
                                            get_patch_duration_from_llm svc (Suc n) medicine_string
                                      in Inr (AList.update ''duration'' (PyStr d) result, n'))
                                else Inr (result, Suc n))
                      else Inr (result, Suc n))
              | Some other \<Rightarrow> Inl AttributeError))"

text \<open>
  \<^verbatim>\<open>extract_components\<close>: the inner handler catches \<^verbatim>\<open>JSONDecodeError\<close> and
  \<^verbatim>\<open>AttributeError\<close>, the outer one every other exception; both return
  \<^verbatim>\<open>self.extract_components_regex(medicine_string)\<close>.
\<close>

definition extract_components :: "service \<Rightarrow> json_reader \<Rightarrow> nat \<Rightarrow> string \<Rightarrow> dict \<times> nat" where
  "extract_components svc json_loads n medicine_string =
     (case extract_components_try svc json_loads n medicine_string of
        Inr r \<Rightarrow> r
      | Inl e \<Rightarrow> extract_components_regex svc (Suc n) medicine_string)"

text \<open>
  \<^verbatim>\<open>process_medicine_list\<close>: an item of the input has the keys \<^verbatim>\<open>NM\<close>, a string, and
  \<^verbatim>\<open>VPID\<close>. \<^verbatim>\<open>components['name']\<close> raises \<^verbatim>\<open>KeyError\<close> when the key is missing, and
  nothing in the loop catches it.
\<close>

record medicine =
  NM :: string
  VPID :: pyval

definition subscript :: "dict \<Rightarrow> string \<Rightarrow> exn + pyval" where
  "subscript d k = (case map_of d k of None \<Rightarrow> Inl KeyError | Some v \<Rightarrow> Inr v)"

fun process_loop ::
    "service \<Rightarrow> json_reader \<Rightarrow> nat \<Rightarrow> medicine list \<Rightarrow> dict list \<Rightarrow> exn + dict list" where
  "process_loop svc json_loads n [] processed_medicines = Inr processed_medicines"
| "process_loop svc json_loads n (medicine # rest) processed_medicines =
     (let (components, n') = extract_components svc json_loads n (NM medicine)
      in case subscript components ''name'' of Inl e \<Rightarrow> Inl e | Inr name \<Rightarrow>
         (case subscript components ''strength'' of Inl e \<Rightarrow> Inl e | Inr strength \<Rightarrow>
         (case subscript components ''formulation'' of Inl e \<Rightarrow> Inl e | Inr formulation \<Rightarrow>
           (let processed_medicine =
                  [(''VPID'', VPID medicine), (''original_name'', PyStr (NM medicine)),
                   (''name'', name), (''strength'', strength), (''formulation'', formulation)];
                processed_medicine =
                  (if is_patch (NM medicine)
                   then AList.update ''duration''
                          (case map_of components ''duration'' of
                             None \<Rightarrow> PyStr [] | Some d \<Rightarrow> d)
                          processed_medicine
                   else processed_medicine)
            in process_loop svc json_loads n' rest (processed_medicines @ [processed_medicine])))))"

definition process_medicine_list ::
    "service \<Rightarrow> json_reader \<Rightarrow> nat \<Rightarrow> medicine list \<Rightarrow> exn + dict list" where
  "process_medicine_list svc json_loads n medicines = process_loop svc json_loads n medicines []"

section \<open>Environments and predicates used in the statements\<close>

text \<open>A service whose every call raises, and a reader that rejects every text.\<close>

definition no_service :: service where
  "no_service n q = ServiceError"

definition no_json :: json_reader where
  "no_json text = None"

text \<open>A service that answers every call with prose.\<close>

definition prose_service :: service where
  "prose_service n q = Content (Some ''Sorry, I cannot help.'')"

definition starts_with_digit :: "string \<Rightarrow> bool" where
  "starts_with_digit s = (case s of [] \<Rightarrow> False | c # cs \<Rightarrow> is_digit c)"

text \<open>A service that answers every call with the same text.\<close>

definition echo_service :: "string \<Rightarrow> service" where
  "echo_service text n q = Content (Some text)"

text \<open>A service whose first answer is \<^verbatim>\<open>7 days\<close> and whose later answers are \<^verbatim>\<open>24 hours\<close>.\<close>

definition days_then_hours :: service where
  "days_then_hours n q = (if n = 0 then Content (Some ''7 days'') else Content (Some ''24 hours''))"

text \<open>A service whose second call raises and whose other calls answer with the same text.\<close>

definition second_call_fails :: "string \<Rightarrow> service" where
  "second_call_fails text n q = (if n = 1 then ServiceError else Content (Some text))"

text \<open>A reader that accepts the texts of a table and returns the value beside them.\<close>

definition table_reader :: "(string \<times> pyval) list \<Rightarrow> json_reader" where
  "table_reader table text = map_of table text"

text \<open>Replies of the service used as examples, with the values they denote.\<close>

definition name_x_body :: string where
  \<open>name_x_body = CHR 0x0A # ''{"name":"X"}'' @ [CHR 0x0A]\<close>

definition name_x_reply :: string where
  "name_x_reply = ''```json'' @ name_x_body @ ''```''"

text \<open>The same reply followed by a newline.\<close>

definition name_x_reply_newline :: string where
  "name_x_reply_newline = name_x_reply @ [CHR 0x0A]"

definition nicotine_reply :: string where
  \<open>nicotine_reply = ''{"name":"Nicotine","formulation":"patch","duration":"16 Hours"}''\<close>

definition nicotine_dict :: dict where
  "nicotine_dict = [(''name'', PyStr ''Nicotine''), (''formulation'', PyStr ''patch''),
                    (''duration'', PyStr ''16 Hours'')]"

definition nameless_reply :: string where
  \<open>nameless_reply = ''{"strength":"75mg","formulation":"tablets"}''\<close>

definition nameless_dict :: dict where
  "nameless_dict = [(''strength'', PyStr ''75mg''), (''formulation'', PyStr ''tablets'')]"

text \<open>
  The canonical form of a duration: empty, or digits followed by \<^verbatim>\<open> days\<close> or
  \<^verbatim>\<open> hours\<close>.
\<close>

definition canonical_duration :: "string \<Rightarrow> bool" where
  "canonical_duration d =
     (d = [] \<or>
      (takeWhile is_digit d \<noteq> [] \<and>
       (dropWhile is_digit d = '' days'' \<or> dropWhile is_digit d = '' hours'')))"

section \<open>The derivation of the name, step by step\<close>

text \<open>
  The steps of the name derivation as the specification describes them, on lists and
  without regular expressions. \<open>remove_first\<close> removes the first occurrence of a text,
  \<open>remove_all\<close> every occurrence from left to right; \<open>drop_generic\<close> strips a leading
  \<^verbatim>\<open>Generic\<close> with the whitespace after it; \<open>collapse_sterile\<close> replaces a
  \<^verbatim>\<open>sterile\<close> between whitespace, with that whitespace, by one space;
  \<open>collapse_spaces\<close> replaces every run of whitespace by one space.
\<close>

definition starts_with_space :: "string \<Rightarrow> bool" where
  "starts_with_space s = (case s of [] \<Rightarrow> False | c # cs \<Rightarrow> is_space c)"

fun remove_first :: "string \<Rightarrow> string \<Rightarrow> string" where
  "remove_first old [] = []"
| "remove_first old (c # cs) =
     (if startswith (c # cs) old then drop (length old) (c # cs)
      else c # remove_first old cs)"

function remove_all :: "string \<Rightarrow> string \<Rightarrow> string" where
  "remove_all old s =
     (case s of
        [] \<Rightarrow> []
      | c # cs \<Rightarrow>
          if old = [] then s
          else if startswith s old then remove_all old (drop (length old) s)
          else c # remove_all old cs)"
  by pat_completeness auto
termination
  by (relation "measure (\<lambda>(old, s). length s)") auto

definition drop_generic :: "string \<Rightarrow> string" where
  "drop_generic s =
     (if startswith s ''Generic'' \<and> starts_with_space (drop 7 s)
      then dropWhile is_space (drop 7 s) else s)"

function collapse_sterile :: "string \<Rightarrow> string" where
  "collapse_sterile s =
     (case s of
        [] \<Rightarrow> []
      | c # cs \<Rightarrow>
          if is_space c \<and> startswith (dropWhile is_space cs) ''sterile'' \<and>
             starts_with_space (drop 7 (dropWhile is_space cs))
          then CHR '' '' # collapse_sterile (dropWhile is_space (drop 7 (dropWhile is_space cs)))
          else c # collapse_sterile cs)"
  by pat_completeness auto
termination
proof (relation "measure length")
  show "wf (measure length)" by simp
next
  fix s :: string and c cs
  assume "s = c # cs"
  have "length (dropWhile is_space (drop 7 (dropWhile is_space cs)))
          \<le> length (drop 7 (dropWhile is_space cs))"
    by (rule length_dropWhile_le)
  also have "\<dots> \<le> length (dropWhile is_space cs)" by simp
  also have "\<dots> \<le> length cs" by (rule length_dropWhile_le)
  finally have "length (dropWhile is_space (drop 7 (dropWhile is_space cs))) \<le> length cs" .
  with \<open>s = c # cs\<close>
  show "(dropWhile is_space (drop 7 (dropWhile is_space cs)), s) \<in> measure length"
    by simp
next
  fix s :: string and c cs
  assume "s = c # cs"
  then show "(cs, s) \<in> measure length" by simp
qed

function collapse_spaces :: "string \<Rightarrow> string" where
  "collapse_spaces s =
     (case s of
        [] \<Rightarrow> []
      | c # cs \<Rightarrow>
          if is_space c then CHR '' '' # collapse_spaces (dropWhile is_space cs)
          else c # collapse_spaces cs)"
  by pat_completeness auto
termination
proof (relation "measure length")
  show "wf (measure length)" by simp
next
  fix s :: string and c cs
  assume "s = c # cs"
  have "length (dropWhile is_space cs) \<le> length cs"
    by (rule length_dropWhile_le)
  with \<open>s = c # cs\<close>
  show "(dropWhile is_space cs, s) \<in> measure length" by simp
next
  fix s :: string and c cs
  assume "s = c # cs"
  then show "(cs, s) \<in> measure length" by simp
qed

definition derive_name ::
    "(string \<Rightarrow> string \<Rightarrow> string) \<Rightarrow> string \<Rightarrow> string \<Rightarrow> string \<Rightarrow> string" where
  "derive_name remove strength formulation raw =
     rstrip_chars '' -,.''
       (strip (collapse_spaces (collapse_sterile (drop_generic
          (remove formulation (remove strength raw))))))"

section \<open>Properties\<close>

subsection \<open>The regular expressions of the name cleanup\<close>

text \<open>
  Each of the three substitutions of the cleanup is the list function of the same step:
  what the backtracking matcher does with \<^verbatim>\<open>^Generic\s+\<close>, \<^verbatim>\<open>\s+sterile\s+\<close> and
  \<^verbatim>\<open>\s+\<close> is worked out once, for every subject.
\<close>

lemma many_head: "\<exists>rest. many k s = dropWhile (in_class k) s # rest"
  by (induction s) auto

lemma concat_map_many:
  assumes "\<And>x xs. in_class k x \<Longrightarrow> f (x # xs) = []"
  shows "concat (map f (many k s)) = f (dropWhile (in_class k) s)"
  using assms by (induction s) auto

lemma lit_match_startswith:
  "lit_match False w s = (if startswith s w then Some (drop (length w) s) else None)"
  by (induction s w rule: startswith.induct) auto

declare re_sub.simps [simp del]
declare collapse_spaces.simps [simp del]
declare collapse_sterile.simps [simp del]
declare remove_all.simps [simp del]
declare replace.simps [simp del]

lemma in_class_Space: "in_class Space = is_space"
  by (rule ext) simp

lemma many_Space_head: "\<exists>rest. many Space s = dropWhile is_space s # rest"
  using many_head [of Space s] by (simp add: in_class_Space)

lemma not_space_s: "\<not> is_space CHR ''s''"
  by (simp add: is_space_def)

lemma re_sub_spaces:
  "re_sub bos (Plus Space) '' '' s = collapse_spaces s"
proof (induction s arbitrary: bos rule: collapse_spaces.induct)
  case (1 s)
  show ?case
  proof (cases s)
    case Nil
    then show ?thesis
      by (simp add: re_sub.simps [of _ _ _ "[]"] collapse_spaces.simps [of "[]"])
  next
    case (Cons c cs)
    show ?thesis
    proof (cases "is_space c")
      case True
      obtain rest where m: "many Space cs = dropWhile is_space cs # rest"
        using many_Space_head [of cs] by auto
      have le: "length (dropWhile is_space cs) \<le> length cs"
        by (rule length_dropWhile_le)
      have "re_sub bos (Plus Space) '' '' s =
            '' '' @ re_sub False (Plus Space) '' '' (dropWhile is_space cs)"
        using Cons True m le by (subst re_sub.simps) simp
      also have "\<dots> = CHR '' '' # collapse_spaces (dropWhile is_space cs)"
        using "1.IH" (1) [OF Cons True] by simp
      also have "\<dots> = collapse_spaces s"
        using Cons True by (subst (2) collapse_spaces.simps) simp
      finally show ?thesis .
    next
      case False
      have "re_sub bos (Plus Space) '' '' s = c # re_sub False (Plus Space) '' '' cs"
        using Cons False by (subst re_sub.simps) simp
      also have "\<dots> = c # collapse_spaces cs"
        using "1.IH" (2) [OF Cons False] by simp
      also have "\<dots> = collapse_spaces s"
        using Cons False by (subst (2) collapse_spaces.simps) simp
      finally show ?thesis .
    qed
  qed
qed


lemma rmatch_space_sterile:
  "rmatch False bos (Seq (Plus Space) (Lit ''sterile'')) (c # cs) =
     (if is_space c \<and> startswith (dropWhile is_space cs) ''sterile''
      then [drop 7 (dropWhile is_space cs)] else [])"
proof (cases "is_space c")
  case False
  then show ?thesis by simp
next
  case True
  have "concat (map (\<lambda>s'. case lit_match False ''sterile'' s' of None \<Rightarrow> [] | Some r \<Rightarrow> [r])
                    (many Space cs)) =
        (case lit_match False ''sterile'' (dropWhile (in_class Space) cs) of
           None \<Rightarrow> [] | Some r \<Rightarrow> [r])"
    by (rule concat_map_many) (auto simp add: is_space_def)
  with True show ?thesis
    by (simp add: lit_match_startswith in_class_Space eval_nat_numeral)
qed

lemma rmatch_sterile:
  "rmatch False bos (seqs (Plus Space) [Lit ''sterile'', Plus Space]) (c # cs) =
     (if is_space c \<and> startswith (dropWhile is_space cs) ''sterile'' \<and>
         starts_with_space (drop 7 (dropWhile is_space cs))
      then many Space (tl (drop 7 (dropWhile is_space cs))) else [])"
  unfolding seqs_def foldl.simps rmatch.simps(4) [of _ _ "Seq (Plus Space) (Lit ''sterile'')"]
    rmatch_space_sterile
  by (auto simp add: starts_with_space_def split: list.splits)

lemma rmatch_sterile_Nil:
  "rmatch False bos (seqs (Plus Space) [Lit ''sterile'', Plus Space]) [] = []"
  by (simp add: seqs_def)

lemma dropWhile_tl_space:
  "starts_with_space s \<Longrightarrow> dropWhile is_space (tl s) = dropWhile is_space s"
  by (cases s) (simp_all add: starts_with_space_def)

lemma re_sub_sterile:
  "re_sub bos (seqs (Plus Space) [Lit ''sterile'', Plus Space]) '' '' s = collapse_sterile s"
proof (induction s arbitrary: bos rule: collapse_sterile.induct)
  case (1 s)
  let ?r = "seqs (Plus Space) [Lit ''sterile'', Plus Space]"
  show ?case
  proof (cases s)
    case Nil
    then show ?thesis
      by (simp add: re_sub.simps [of _ _ _ "[]"] collapse_sterile.simps [of "[]"]
            rmatch_sterile_Nil)
  next
    case (Cons c cs)
    let ?a = "dropWhile is_space cs"
    show ?thesis
    proof (cases "is_space c \<and> startswith ?a ''sterile'' \<and> starts_with_space (drop 7 ?a)")
      case True
      obtain rest where m: "many Space (tl (drop 7 ?a)) = dropWhile is_space (drop 7 ?a) # rest"
        using many_Space_head [of "tl (drop 7 ?a)"] True
        by (auto simp add: dropWhile_tl_space)
      have "length (dropWhile is_space (drop 7 ?a)) \<le> length (drop 7 ?a)"
        by (rule length_dropWhile_le)
      also have "\<dots> \<le> length ?a" by simp
      also have "\<dots> \<le> length cs" by (rule length_dropWhile_le)
      finally have le: "length (dropWhile is_space (drop 7 ?a)) \<le> length cs" .
      have "re_sub bos ?r '' '' s = '' '' @ re_sub False ?r '' '' (dropWhile is_space (drop 7 ?a))"
        using Cons True m le by (subst re_sub.simps) (simp add: rmatch_sterile)
      also have "\<dots> = CHR '' '' # collapse_sterile (dropWhile is_space (drop 7 ?a))"
        using "1.IH" (1) [OF Cons True] by simp
      also have "\<dots> = collapse_sterile s"
        using Cons True by (subst (2) collapse_sterile.simps) simp
      finally show ?thesis .
    next
      case False
      have "re_sub bos ?r '' '' s = c # re_sub False ?r '' '' cs"
        using Cons False by (subst re_sub.simps) (auto simp add: rmatch_sterile)
      also have "\<dots> = c # collapse_sterile cs"
        using "1.IH" (2) [OF Cons False] by simp
      also have "\<dots> = collapse_sterile s"
        using Cons False by (subst (2) collapse_sterile.simps) auto
      finally show ?thesis .
    qed
  qed
qed


lemma startswith_length: "startswith s w \<Longrightarrow> length w \<le> length s"
  by (induction s w rule: startswith.induct) auto

lemma rmatch_generic_later:
  "rmatch False False (seqs Bol [Lit ''Generic'', Plus Space]) s = []"
  by (simp add: seqs_def)

lemma re_sub_generic_later:
  "re_sub False (seqs Bol [Lit ''Generic'', Plus Space]) repl s = s"
  by (induction s) (simp_all add: re_sub.simps [of False] rmatch_generic_later)

lemma rmatch_generic:
  "rmatch False True (seqs Bol [Lit ''Generic'', Plus Space]) s =
     (if startswith s ''Generic'' \<and> starts_with_space (drop 7 s)
      then many Space (tl (drop 7 s)) else [])"
  by (auto simp add: seqs_def lit_match_startswith starts_with_space_def eval_nat_numeral
        split: list.splits)

lemma re_sub_generic:
  "re_sub True (seqs Bol [Lit ''Generic'', Plus Space]) [] s = drop_generic s"
proof (cases "startswith s ''Generic'' \<and> starts_with_space (drop 7 s)")
  case True
  obtain rest where m: "many Space (tl (drop 7 s)) = dropWhile is_space (drop 7 s) # rest"
    using many_Space_head [of "tl (drop 7 s)"] True by (auto simp add: dropWhile_tl_space)
  have "length ''Generic'' \<le> length s"
    using True by (intro startswith_length) simp
  then have "7 \<le> length s" by simp
  moreover have "length (dropWhile is_space (drop 7 s)) \<le> length (drop 7 s)"
    by (rule length_dropWhile_le)
  ultimately have lt: "length (dropWhile is_space (drop 7 s)) < length s" by simp
  show ?thesis
    using True m lt
    by (subst re_sub.simps) (simp add: rmatch_generic re_sub_generic_later drop_generic_def)
next
  case False
  then show ?thesis
    by (subst re_sub.simps)
       (auto simp add: rmatch_generic re_sub_generic_later drop_generic_def split: list.splits)
qed

lemma remove_all_Nil: "remove_all [] s = s"
  by (subst remove_all.simps) (simp split: list.splits)

lemma replace_remove_all:
  "old \<noteq> [] \<Longrightarrow> replace old [] s = remove_all old s"
proof (induction old s rule: remove_all.induct)
  case (1 old s)
  show ?case
  proof (cases s)
    case Nil
    with "1.prems" show ?thesis
      by (cases old) (simp_all add: replace.simps [of _ _ "[]"] remove_all.simps [of _ "[]"])
  next
    case (Cons c cs)
    show ?thesis
    proof (cases "startswith s old")
      case True
      have "replace old [] s = replace old [] (drop (length old) s)"
        using "1.prems" True by (subst replace.simps) simp
      also have "\<dots> = remove_all old (drop (length old) s)"
        using "1.IH" (1) [OF Cons "1.prems" True] "1.prems" by simp
      also have "\<dots> = remove_all old s"
        using "1.prems" True Cons by (subst (2) remove_all.simps) simp
      finally show ?thesis .
    next
      case False
      have "replace old [] s = c # replace old [] cs"
        using "1.prems" False Cons by (subst replace.simps) simp
      also have "\<dots> = c # remove_all old cs"
        using "1.IH" (2) [OF Cons "1.prems" False] "1.prems" by simp
      also have "\<dots> = remove_all old s"
        using "1.prems" False Cons by (subst (2) remove_all.simps) simp
      finally show ?thesis .
    qed
  qed
qed

lemma clean_name_derive:
  "clean_name raw strength formulation = derive_name remove_all strength formulation raw"
  by (simp add: clean_name_def derive_name_def Let_def re_sub_generic re_sub_sterile
        re_sub_spaces replace_remove_all remove_all_Nil)

subsection \<open>Dicts and the fence\<close>

lemma unfence_fenced: "unfence (''```json'' @ body @ ''```'') = body"
  by (simp add: unfence_def slice_7_minus3_def)

lemma map_of_update_other:
  "k' \<noteq> k \<Longrightarrow> map_of (AList.update k v d) k' = map_of d k'"
  by (simp add: update_conv')

lemma map_of_update_same:
  "map_of (AList.update k v d) k = Some v"
  by (simp add: update_conv')

lemma not_get_update_other:
  "k' \<noteq> k \<Longrightarrow> not_get (AList.update k v d) k' = not_get d k'"
  by (simp add: not_get_def map_of_update_other)

lemma extract_components_parsed_key:
  assumes reply: "svc n (ExtractQ medicine_string) = Content (Some response_text)"
      and parsed: "json_loads (unfence response_text) = Some (PyDict d)"
      and k: "k \<noteq> ''strength''" "k \<noteq> ''formulation''" "k \<noteq> ''duration''"
  shows "map_of (fst (extract_components svc json_loads n medicine_string)) k = map_of d k"
  using assms
  by (simp add: extract_components_def extract_components_try_def Let_def
        map_of_update_other split: option.splits prod.splits)

lemma extract_components_parsed_strength:
  assumes reply: "svc n (ExtractQ medicine_string) = Content (Some response_text)"
      and parsed: "json_loads (unfence response_text) = Some (PyDict d)"
      and missing: "not_get d ''strength''"
  shows "map_of (fst (extract_components svc json_loads n medicine_string)) ''strength'' =
         Some (PyStr (group0_or_empty (re_search True strength_pattern medicine_string)))"
  using assms
  by (simp add: extract_components_def extract_components_try_def Let_def
        map_of_update_other map_of_update_same split: option.splits prod.splits)

lemma extract_components_parsed_formulation:
  assumes reply: "svc n (ExtractQ medicine_string) = Content (Some response_text)"
      and parsed: "json_loads (unfence response_text) = Some (PyDict d)"
      and missing: "not_get d ''formulation''"
  shows "map_of (fst (extract_components svc json_loads n medicine_string)) ''formulation'' =
         Some (PyStr (group0_or_empty (re_search True formulation_pattern medicine_string)))"
  using assms
  by (simp add: extract_components_def extract_components_try_def Let_def
        not_get_update_other
        map_of_update_other map_of_update_same split: option.splits prod.splits)

subsection \<open>The duration normaliser\<close>

text \<open>
  Claim C10. When the lowercased and stripped text does not begin with a digit,
  \<^verbatim>\<open>clean_duration\<close> returns the empty string, whatever follows: \<^verbatim>\<open>re.match\<close> anchors the
  pattern at the start of the text.
\<close>

theorem clean_duration_anchored:
  assumes "\<not> starts_with_digit (strip (lower duration))"
  shows "clean_duration duration = []"
  using assms
  by (cases "strip (lower duration)")
     (simp_all add: clean_duration_def re_match_group1_def starts_with_digit_def Let_def)

theorem clean_duration_anchored_witness:
  "\<not> starts_with_digit (strip (lower ''lasts 7 days'')) \<and>
   contains ''7 days'' ''lasts 7 days'' \<and>
   clean_duration ''lasts 7 days'' = []"
proof -
  have h: "\<not> starts_with_digit (strip (lower ''lasts 7 days''))" by code_simp
  have c: "contains ''7 days'' ''lasts 7 days''" by code_simp
  show ?thesis using h c clean_duration_anchored [OF h] by simp
qed

text \<open>
  Claim C6. The unit is chosen by looking for \<^verbatim>\<open>hour\<close> and \<^verbatim>\<open>hr\<close> in the whole text, not
  in the unit that the pattern matched: in \<^verbatim>\<open>7 days (168 hours)\<close> the pattern matches
  \<^verbatim>\<open>7 day\<close>, and the result is \<^verbatim>\<open>7 hours\<close>.
\<close>

theorem clean_duration_whole_text:
  "clean_duration ''7 days (168 hours)'' = ''7 hours''"
  by code_simp

text \<open>The five examples of the specification.\<close>

lemma clean_duration_examples:
  "clean_duration ''7 days'' = ''7 days''"
  "clean_duration ''24 HOURS'' = ''24 hours''"
  "clean_duration ''3 hrs'' = ''3 hours''"
  "clean_duration ''unknown'' = []"
  "clean_duration ''abc'' = []"
  by code_simp+

subsection \<open>The strength pattern\<close>

text \<open>
  Claim C7. The percent sign is a unit of the ratio form only: the second alternative of the
  pattern lists \<^verbatim>\<open>micrograms|mcg|mg|g|ml\<close>. A bare \<^verbatim>\<open>1%\<close> is not found, while
  \<^verbatim>\<open>1%/ml\<close> and \<^verbatim>\<open>1mg\<close> are.
\<close>

theorem strength_percent_bare:
  "group0_or_empty (re_search True strength_pattern ''Hydrocortisone 1% cream'') = [] \<and>
   group0_or_empty (re_search True strength_pattern ''Hydrocortisone 1%/ml cream'') = ''1%/ml'' \<and>
   group0_or_empty (re_search True strength_pattern ''Hydrocortisone 1mg cream'') = ''1mg''"
  by code_simp

subsection \<open>The name of the pattern extractor\<close>

text \<open>
  Claim C1, as stated: the name is derived by removing the first occurrence of the strength
  and of the formulation. \<^verbatim>\<open>str.replace\<close> removes every occurrence: for
  \<^verbatim>\<open>Ibuprofen 200mg tablets 2 x 200mg\<close> the parser gives the name \<^verbatim>\<open>Ibuprofen 2 x\<close>,
  the derivation with \<open>remove_first\<close> gives \<^verbatim>\<open>Ibuprofen 2 x 200mg\<close>.
\<close>

theorem name_not_first_occurrence:
  "map_of (fst (extract_components_regex no_service 0 ''Ibuprofen 200mg tablets 2 x 200mg''))
     ''name'' = Some (PyStr ''Ibuprofen 2 x'') \<and>
   derive_name remove_first
     (group0_or_empty (re_search True strength_pattern ''Ibuprofen 200mg tablets 2 x 200mg''))
     (group0_or_empty (re_search True formulation_pattern ''Ibuprofen 200mg tablets 2 x 200mg''))
     ''Ibuprofen 200mg tablets 2 x 200mg'' = ''Ibuprofen 2 x 200mg''"
  by code_simp

lemma aspirin_example:
  "fst (extract_components_regex svc n ''Generic Aspirin 325mg tablets'') =
     [(''name'', PyStr ''Aspirin''), (''strength'', PyStr ''325mg''),
      (''formulation'', PyStr ''tablets'')]"
  by code_simp

lemma regex_result_shape:
  "fst (extract_components_regex svc n raw) =
     [(''name'', PyStr (derive_name remove_all
                          (group0_or_empty (re_search True strength_pattern raw))
                          (group0_or_empty (re_search True formulation_pattern raw)) raw)),
      (''strength'', PyStr (group0_or_empty (re_search True strength_pattern raw))),
      (''formulation'', PyStr (group0_or_empty (re_search True formulation_pattern raw)))] @
     filter (\<lambda>kv. fst kv = ''duration'') (fst (extract_components_regex svc n raw))"
  by (simp add: extract_components_regex_def Let_def clean_name_derive
        split: option.splits prod.splits)

text \<open>
  Claim C1, amended. For every input the result of \<^verbatim>\<open>extract_components_regex\<close> holds
  the strength and the formulation found by the two patterns (empty when there is no match)
  and the name derived from the raw string by these steps: remove every occurrence of the
  strength, then every occurrence of the formulation, strip a leading \<^verbatim>\<open>Generic\<close> with
  the whitespace after it, replace each \<^verbatim>\<open>sterile\<close> between whitespace by one space,
  replace each run of whitespace by one space, strip whitespace at both ends, then strip
  spaces, hyphens, commas and periods at the end. Only a \<^verbatim>\<open>duration\<close> entry may follow
  these three. On \<^verbatim>\<open>Generic Aspirin 325mg tablets\<close> the result is \<^verbatim>\<open>Aspirin\<close>,
  \<^verbatim>\<open>325mg\<close>, \<^verbatim>\<open>tablets\<close>.
\<close>

theorem name_derivation:
  "fst (extract_components_regex svc n raw) =
     [(''name'', PyStr (derive_name remove_all
                          (group0_or_empty (re_search True strength_pattern raw))
                          (group0_or_empty (re_search True formulation_pattern raw)) raw)),
      (''strength'', PyStr (group0_or_empty (re_search True strength_pattern raw))),
      (''formulation'', PyStr (group0_or_empty (re_search True formulation_pattern raw)))] @
     filter (\<lambda>kv. fst kv = ''duration'') (fst (extract_components_regex svc n raw)) \<and>
   fst (extract_components_regex svc n ''Generic Aspirin 325mg tablets'') =
     [(''name'', PyStr ''Aspirin''), (''strength'', PyStr ''325mg''),
      (''formulation'', PyStr ''tablets'')]"
  using regex_result_shape [of svc n raw] aspirin_example [of svc n] by (rule conjI)

theorem name_derivation_witness:
  "map_of (fst (extract_components_regex no_service 0 ''Ibuprofen 200mg tablets 2 x 200mg''))
     ''name'' = Some (PyStr ''Ibuprofen 2 x'')"
proof -
  have st: "group0_or_empty (re_search True strength_pattern
              ''Ibuprofen 200mg tablets 2 x 200mg'') = ''200mg''"
    by code_simp
  have fm: "group0_or_empty (re_search True formulation_pattern
              ''Ibuprofen 200mg tablets 2 x 200mg'') = ''tablets''"
    by code_simp
  have nm: "derive_name remove_all ''200mg'' ''tablets'' ''Ibuprofen 200mg tablets 2 x 200mg'' =
            ''Ibuprofen 2 x''"
    by code_simp
  have "fst (extract_components_regex no_service 0 ''Ibuprofen 200mg tablets 2 x 200mg'') =
          [(''name'', PyStr ''Ibuprofen 2 x''), (''strength'', PyStr ''200mg''),
           (''formulation'', PyStr ''tablets'')] @
          filter (\<lambda>kv. fst kv = ''duration'')
            (fst (extract_components_regex no_service 0 ''Ibuprofen 200mg tablets 2 x 200mg''))"
    using name_derivation [of no_service 0 "''Ibuprofen 200mg tablets 2 x 200mg''"]
    by (simp only: st fm nm)
  then have "map_of (fst (extract_components_regex no_service 0
                            ''Ibuprofen 200mg tablets 2 x 200mg'')) ''name'' =
             map_of ([(''name'', PyStr ''Ibuprofen 2 x''), (''strength'', PyStr ''200mg''),
                      (''formulation'', PyStr ''tablets'')] @
                     filter (\<lambda>kv. fst kv = ''duration'')
                       (fst (extract_components_regex no_service 0
                               ''Ibuprofen 200mg tablets 2 x 200mg''))) ''name''"
    by simp
  then show ?thesis by simp
qed

text \<open>
  Claim C2. The cleanup makes one pass. A leading space keeps \<^verbatim>\<open>^Generic\s+\<close> from
  matching, and the later \<^verbatim>\<open>strip()\<close> then leaves a name that starts with
  \<^verbatim>\<open>Generic\<close>; two \<^verbatim>\<open>sterile\<close> tokens in a row share their whitespace, so the second
  one stays, at the end of the name in the second input and between two spaces in the
  fourth; removing the strength can bring a new occurrence of it together.
\<close>

theorem name_invariant_broken:
  "fst (extract_components_regex no_service 0 '' Generic Aspirin 325mg tablets'') =
     [(''name'', PyStr ''Generic Aspirin''), (''strength'', PyStr ''325mg''),
      (''formulation'', PyStr ''tablets'')] \<and>
   fst (extract_components_regex no_service 0 ''Water sterile sterile 5ml ampoule'') =
     [(''name'', PyStr ''Water sterile''), (''strength'', PyStr ''5ml''),
      (''formulation'', PyStr ''ampoule'')] \<and>
   fst (extract_components_regex no_service 0 ''X 5m5mgg'') =
     [(''name'', PyStr ''X 5mg''), (''strength'', PyStr ''5mg''),
      (''formulation'', PyStr [])] \<and>
   fst (extract_components_regex no_service 0 ''Water sterile sterile saline 5ml ampoule'') =
     [(''name'', PyStr ''Water sterile saline''), (''strength'', PyStr ''5ml''),
      (''formulation'', PyStr ''ampoule'')]"
  by code_simp

text \<open>
  Claim C9, as stated: the pattern extractor makes no external call and gives the same result
  when run twice. For a patch without a duration in the text it asks the service: on
  \<^verbatim>\<open>Nicotine patch\<close> one call is made, and two runs differ when the service answers
  differently.
\<close>

theorem regex_extractor_calls_service:
  "snd (extract_components_regex days_then_hours 0 ''Nicotine patch'') = 1 \<and>
   fst (extract_components_regex days_then_hours 0 ''Nicotine patch'') \<noteq>
   fst (extract_components_regex days_then_hours 1 ''Nicotine patch'')"
  by code_simp

text \<open>
  Claim C9, amended. When the text is not that of a patch, or holds a duration that the
  duration pattern finds, \<^verbatim>\<open>extract_components_regex\<close> makes no call and its result
  does not depend on the service or on the calls made before; for every text the name, the
  strength and the formulation do not depend on them. For a patch without such a duration
  it calls the service once, and the duration of the result is what
  \<^verbatim>\<open>get_patch_duration_from_llm\<close> returns.
\<close>

theorem regex_extractor_pure_part:
  "((\<not> is_patch medicine_string \<or>
      re_search True patch_duration_pattern medicine_string \<noteq> None) \<longrightarrow>
      snd (extract_components_regex svc n medicine_string) = n \<and>
      fst (extract_components_regex svc n medicine_string) =
      fst (extract_components_regex svc' n' medicine_string)) \<and>
   map_of (fst (extract_components_regex svc n medicine_string)) ''name'' =
     map_of (fst (extract_components_regex svc' n' medicine_string)) ''name'' \<and>
   map_of (fst (extract_components_regex svc n medicine_string)) ''strength'' =
     map_of (fst (extract_components_regex svc' n' medicine_string)) ''strength'' \<and>
   map_of (fst (extract_components_regex svc n medicine_string)) ''formulation'' =
     map_of (fst (extract_components_regex svc' n' medicine_string)) ''formulation'' \<and>
   (is_patch medicine_string \<and>
      re_search True patch_duration_pattern medicine_string = None \<longrightarrow>
      snd (extract_components_regex svc n medicine_string) = Suc n \<and>
      snd (get_patch_duration_from_llm svc n medicine_string) = Suc n \<and>
      map_of (fst (extract_components_regex svc n medicine_string)) ''duration'' =
        Some (PyStr (fst (get_patch_duration_from_llm svc n medicine_string))))"
proof -
  have calls: "snd (get_patch_duration_from_llm svc n medicine_string) = Suc n"
    by (simp add: get_patch_duration_from_llm_def Let_def split: reply.splits option.splits)
  show ?thesis
    using calls
    by (auto simp add: extract_components_regex_def Let_def map_of_update_same
          split: option.splits prod.splits)
qed

theorem regex_extractor_pure_part_witness:
  "re_search True patch_duration_pattern ''Fentanyl 72 hour transdermal patch'' =
     Some ''72 hour'' \<and>
   snd (extract_components_regex no_service 0 ''Fentanyl 72 hour transdermal patch'') = 0 \<and>
   fst (extract_components_regex no_service 0 ''Fentanyl 72 hour transdermal patch'') =
   fst (extract_components_regex days_then_hours 1 ''Fentanyl 72 hour transdermal patch'') \<and>
   is_patch ''Nicotine patch'' \<and>
   re_search True patch_duration_pattern ''Nicotine patch'' = None \<and>
   snd (extract_components_regex days_then_hours 0 ''Nicotine patch'') = 1 \<and>
   map_of (fst (extract_components_regex days_then_hours 0 ''Nicotine patch'')) ''duration'' =
     Some (PyStr ''7 days'')"
proof -
  have found: "re_search True patch_duration_pattern ''Fentanyl 72 hour transdermal patch'' =
               Some ''72 hour''"
    by code_simp
  have patch: "is_patch ''Nicotine patch''"
    by code_simp
  have implicit: "re_search True patch_duration_pattern ''Nicotine patch'' = None"
    by code_simp
  have answer: "fst (get_patch_duration_from_llm days_then_hours 0 ''Nicotine patch'') = ''7 days''"
    by code_simp
  show ?thesis
    using found patch implicit answer
      regex_extractor_pure_part [of "''Fentanyl 72 hour transdermal patch''" no_service 0
                                    days_then_hours 1]
      regex_extractor_pure_part [of "''Nicotine patch''" days_then_hours 0 no_service 0]
    by simp
qed

subsection \<open>The fallback\<close>

text \<open>
  Claim C4. When the call to the service raises, or the text of the reply, after the removal
  of the fence, is rejected by the JSON reader, \<^verbatim>\<open>extract_components\<close> returns what
  \<^verbatim>\<open>extract_components_regex\<close> returns for the same string, run after that one call;
  the result is a dict, not an exception.
\<close>

theorem extract_components_fallback:
  assumes "svc n (ExtractQ medicine_string) = ServiceError \<or>
           (\<exists>text. svc n (ExtractQ medicine_string) = Content (Some text) \<and>
                   json_loads (unfence text) = None)"
  shows "extract_components svc json_loads n medicine_string =
         extract_components_regex svc (Suc n) medicine_string"
  using assms
  by (auto simp add: extract_components_def extract_components_try_def)

theorem extract_components_fallback_witness:
  "extract_components no_service no_json 0 ''Aspirin 75mg tablets'' =
     extract_components_regex no_service 1 ''Aspirin 75mg tablets'' \<and>
   extract_components prose_service no_json 0 ''Aspirin 75mg tablets'' =
     extract_components_regex prose_service 1 ''Aspirin 75mg tablets''"
  using extract_components_fallback [of no_service 0 "''Aspirin 75mg tablets''" no_json]
        extract_components_fallback [of prose_service 0 "''Aspirin 75mg tablets''" no_json]
  by (simp add: no_service_def prose_service_def no_json_def)

subsection \<open>A reply that parses\<close>

text \<open>
  When the reply parses to a dict, a strength that is missing or falsy in it is replaced by
  what the strength pattern finds in the raw string (empty when nothing is found), and so is
  the formulation; the name of the reply is kept. A body between an opening fence and a
  closing fence that ends the reply is parsed alone. The example is the reply of the
  specification, with a reader that gives its body the dict it denotes.
\<close>

lemma model_reply_filled:
  assumes reply: "svc n (ExtractQ medicine_string) = Content (Some response_text)"
      and parsed: "json_loads (unfence response_text) = Some (PyDict d)"
  shows "(not_get d ''strength'' \<longrightarrow>
            map_of (fst (extract_components svc json_loads n medicine_string)) ''strength'' =
            Some (PyStr (group0_or_empty (re_search True strength_pattern medicine_string)))) \<and>
         (not_get d ''formulation'' \<longrightarrow>
            map_of (fst (extract_components svc json_loads n medicine_string)) ''formulation'' =
            Some (PyStr (group0_or_empty (re_search True formulation_pattern medicine_string)))) \<and>
         map_of (fst (extract_components svc json_loads n medicine_string)) ''name'' =
            map_of d ''name'' \<and>
         unfence (''```json'' @ body @ ''```'') = body"
proof (intro conjI impI)
  show "unfence (''```json'' @ body @ ''```'') = body"
    by (rule unfence_fenced)
next
  assume "not_get d ''strength''"
  with reply parsed
  show "map_of (fst (extract_components svc json_loads n medicine_string)) ''strength'' =
        Some (PyStr (group0_or_empty (re_search True strength_pattern medicine_string)))"
    by (rule extract_components_parsed_strength)
next
  assume "not_get d ''formulation''"
  with reply parsed
  show "map_of (fst (extract_components svc json_loads n medicine_string)) ''formulation'' =
        Some (PyStr (group0_or_empty (re_search True formulation_pattern medicine_string)))"
    by (rule extract_components_parsed_formulation)
next
  show "map_of (fst (extract_components svc json_loads n medicine_string)) ''name'' =
        map_of d ''name''"
    using reply parsed by (rule extract_components_parsed_key) simp_all
qed

lemma model_reply_filled_example:
  "map_of (fst (extract_components (echo_service name_x_reply)
                  (table_reader [(name_x_body, PyDict [(''name'', PyStr ''X'')])]) 0
                  ''Aspirin 75mg tablets'')) ''name'' = Some (PyStr ''X'') \<and>
   map_of (fst (extract_components (echo_service name_x_reply)
                  (table_reader [(name_x_body, PyDict [(''name'', PyStr ''X'')])]) 0
                  ''Aspirin 75mg tablets'')) ''strength'' = Some (PyStr ''75mg'') \<and>
   map_of (fst (extract_components (echo_service name_x_reply)
                  (table_reader [(name_x_body, PyDict [(''name'', PyStr ''X'')])]) 0
                  ''Aspirin 75mg tablets'')) ''formulation'' = Some (PyStr ''tablets'') \<and>
   unfence name_x_reply = name_x_body"
proof -
  let ?svc = "echo_service name_x_reply"
  let ?reader = "table_reader [(name_x_body, PyDict [(''name'', PyStr ''X'')])]"
  have reply: "?svc 0 (ExtractQ ''Aspirin 75mg tablets'') = Content (Some name_x_reply)"
    by (simp add: echo_service_def)
  have fence: "unfence name_x_reply = name_x_body"
    unfolding name_x_reply_def by (rule unfence_fenced)
  have parsed: "?reader (unfence name_x_reply) = Some (PyDict [(''name'', PyStr ''X'')])"
    by (simp add: fence table_reader_def)
  have missing: "not_get [(''name'', PyStr ''X'')] ''strength''"
                "not_get [(''name'', PyStr ''X'')] ''formulation''"
    by (simp_all add: not_get_def)
  have st: "group0_or_empty (re_search True strength_pattern ''Aspirin 75mg tablets'') = ''75mg''"
    by code_simp
  have fm: "group0_or_empty (re_search True formulation_pattern ''Aspirin 75mg tablets'') =
            ''tablets''"
    by code_simp
  show ?thesis
    using model_reply_filled
            [where svc = "?svc" and json_loads = "?reader" and n = 0
               and medicine_string = "''Aspirin 75mg tablets''"
               and response_text = name_x_reply and d = "[(''name'', PyStr ''X'')]"
               and body = name_x_body,
             OF reply parsed]
          missing st fm fence
    by simp
qed

text \<open>
  Claim C5. A reply that starts with the fence loses its first seven and its last three
  characters, whatever the last three are. When one character follows the closing fence, a
  newline for instance, a backtick stays at the end of the text given to the reader; a reader
  that rejects that text sends \<^verbatim>\<open>extract_components\<close> to the pattern extractor, and
  the name of the reply is lost. (The copy of the parser in \<^verbatim>\<open>main.py\<close> calls
  \<^verbatim>\<open>strip()\<close> on the reply first.)
\<close>

theorem fence_cut_leaves_backtick:
  assumes reply: "svc n (ExtractQ medicine_string) =
                    Content (Some (''```json'' @ body @ ''```'' @ [c]))"
      and rejected: "json_loads (body @ ''`'') = None"
  shows "unfence (''```json'' @ body @ ''```'' @ [c]) = body @ ''`'' \<and>
         extract_components svc json_loads n medicine_string =
         extract_components_regex svc (Suc n) medicine_string"
proof -
  have cut: "unfence (''```json'' @ body @ ''```'' @ [c]) = body @ ''`''"
    by (simp add: unfence_def slice_7_minus3_def)
  have "extract_components_try svc json_loads n medicine_string = Inl JSONDecodeError"
    unfolding extract_components_try_def reply
    by (simp only: reply.case option.case cut Let_def rejected)
  then show ?thesis
    using cut by (simp add: extract_components_def)
qed

theorem fence_cut_leaves_backtick_witness:
  "unfence name_x_reply_newline = name_x_body @ ''`'' \<and>
   table_reader [(name_x_body, PyDict [(''name'', PyStr ''X'')])] name_x_body =
     Some (PyDict [(''name'', PyStr ''X'')]) \<and>
   map_of (fst (extract_components (echo_service name_x_reply_newline)
                  (table_reader [(name_x_body, PyDict [(''name'', PyStr ''X'')])]) 0
                  ''Aspirin 75mg tablets'')) ''name'' = Some (PyStr ''Aspirin'')"
proof -
  let ?svc = "echo_service name_x_reply_newline"
  let ?reader = "table_reader [(name_x_body, PyDict [(''name'', PyStr ''X'')])]"
  have shape: "name_x_reply_newline = ''```json'' @ name_x_body @ ''```'' @ [CHR 0x0A]"
    by (simp add: name_x_reply_newline_def name_x_reply_def)
  have reply: "?svc 0 (ExtractQ ''Aspirin 75mg tablets'') =
               Content (Some (''```json'' @ name_x_body @ ''```'' @ [CHR 0x0A]))"
    by (simp only: echo_service_def shape)
  have rejected: "?reader (name_x_body @ ''`'') = None"
    by (simp add: table_reader_def)
  have accepted: "?reader name_x_body = Some (PyDict [(''name'', PyStr ''X'')])"
    by (simp add: table_reader_def)
  have fallback: "map_of (fst (extract_components_regex ?svc (Suc 0) ''Aspirin 75mg tablets''))
                    ''name'' = Some (PyStr ''Aspirin'')"
    by code_simp
  show ?thesis
    using fence_cut_leaves_backtick
            [where svc = "?svc" and json_loads = "?reader" and n = 0
               and medicine_string = "''Aspirin 75mg tablets''"
               and body = name_x_body and c = "CHR 0x0A",
             OF reply rejected]
          accepted fallback
    by (simp only: shape [symmetric])
qed

subsection \<open>The duration of a patch\<close>

text \<open>
  Whatever \<^verbatim>\<open>clean_duration\<close> returns is canonical: the explicit duration of the text
  and the answer of the second query always are.
\<close>

lemma many_suffix:
  "s1 \<in> set (many k cs) \<Longrightarrow> \<exists>pre. cs = pre @ s1 \<and> list_all (in_class k) pre"
proof (induction cs)
  case Nil
  then show ?case by simp
next
  case (Cons c cs)
  show ?case
  proof (cases "s1 = c # cs")
    case True
    then show ?thesis by simp
  next
    case False
    with Cons.prems have k: "in_class k c" and m: "s1 \<in> set (many k cs)"
      by (auto split: if_splits)
    from Cons.IH [OF m] obtain pre where "cs = pre @ s1" "list_all (in_class k) pre"
      by blast
    with k have "c # cs = (c # pre) @ s1 \<and> list_all (in_class k) (c # pre)"
      by simp
    then show ?thesis by blast
  qed
qed

lemma concat_const_head:
  assumes "concat (map (\<lambda>s1. map (\<lambda>s2. s1) (f s1)) xs) = y # ys"
  shows "y \<in> set xs"
proof -
  have "y \<in> set (concat (map (\<lambda>s1. map (\<lambda>s2. s1) (f s1)) xs))"
    unfolding assms by simp
  then show ?thesis by auto
qed

lemma group1_digits:
  assumes "re_match_group1 ic (Plus Digit) r2 d = Some number"
  shows "number \<noteq> [] \<and> list_all is_digit number"
proof -
  from assms obtain s1 rest where
    eq: "concat (map (\<lambda>s1. map (\<lambda>s2. s1) (rmatch ic (length s1 = length d) r2 s1))
                     (rmatch ic True (Plus Digit) d)) = s1 # rest"
    and num: "number = take (length d - length s1) d"
    by (auto simp add: re_match_group1_def split: list.splits)
  from eq have s1: "s1 \<in> set (rmatch ic True (Plus Digit) d)"
    by (rule concat_const_head)
  from s1 obtain c cs where d: "d = c # cs" and c: "is_digit c"
    and m: "s1 \<in> set (many Digit cs)"
    by (cases d) (auto split: if_splits)
  from many_suffix [OF m] obtain pre where pre: "cs = pre @ s1" "list_all (in_class Digit) pre"
    by blast
  have "number = c # pre"
    using num d pre by simp
  with c pre show ?thesis
    by (simp add: list_all_iff)
qed

lemma digits_then_unit:
  assumes "number \<noteq> []" "list_all is_digit number" "u = '' days'' \<or> u = '' hours''"
  shows "canonical_duration (number @ u)"
proof -
  have nd: "\<not> is_digit CHR '' ''" by (simp add: is_digit_def)
  have tw: "takeWhile is_digit (number @ u) = number"
    using assms nd by (auto simp add: list_all_iff takeWhile_append2)
  have dw: "dropWhile is_digit (number @ u) = u"
    using assms nd by (auto simp add: list_all_iff dropWhile_append2)
  show ?thesis
    using assms(1,3) by (simp add: canonical_duration_def tw dw del: append.simps)
qed

lemma clean_duration_canonical: "canonical_duration (clean_duration duration)"
proof (cases "duration = []")
  case True
  then show ?thesis by (simp add: clean_duration_def canonical_duration_def)
next
  case False
  show ?thesis
  proof (cases "re_match_group1 False (Plus Digit) (Seq (Star Space) duration_units)
                  (strip (lower duration))")
    case None
    with False show ?thesis by (simp add: clean_duration_def canonical_duration_def)
  next
    case (Some number)
    from group1_digits [OF Some] have "number \<noteq> []" "list_all is_digit number" by simp_all
    then have "canonical_duration (number @ '' days'')" "canonical_duration (number @ '' hours'')"
      by (simp_all add: digits_then_unit del: append.simps)
    with False Some show ?thesis
      by (simp add: clean_duration_def Let_def del: append.simps)
  qed
qed

text \<open>
  Claim C3. A duration that the reply carries is kept as it is, whatever its form, when the
  text has no explicit duration: \<^verbatim>\<open>clean_duration\<close> is applied to the explicit duration
  and to the answer of the second query, not to this one. The witness keeps \<^verbatim>\<open>16 Hours\<close>,
  which is not canonical and which \<^verbatim>\<open>clean_duration\<close> would turn into \<^verbatim>\<open>16 hours\<close>.
\<close>

theorem model_duration_kept:
  assumes reply: "svc n (ExtractQ medicine_string) = Content (Some response_text)"
      and parsed: "json_loads (unfence response_text) = Some (PyDict d)"
      and patch: "is_patch medicine_string"
      and implicit: "re_search True patch_duration_pattern medicine_string = None"
      and given: "map_of d ''duration'' = Some v"
      and nonempty: "truthy v"
  shows "map_of (fst (extract_components svc json_loads n medicine_string)) ''duration'' = Some v"
  using assms
  by (auto simp add: extract_components_def extract_components_try_def Let_def not_get_def
        map_of_update_other
        split: option.splits prod.splits)

theorem model_duration_kept_witness:
  "map_of (fst (extract_components (echo_service nicotine_reply)
                  (table_reader [(nicotine_reply, PyDict nicotine_dict)]) 0
                  ''Nicotine patch'')) ''duration'' = Some (PyStr ''16 Hours'') \<and>
   \<not> canonical_duration ''16 Hours'' \<and>
   clean_duration ''16 Hours'' = ''16 hours''"
proof -
  let ?svc = "echo_service nicotine_reply"
  let ?reader = "table_reader [(nicotine_reply, PyDict nicotine_dict)]"
  have reply: "?svc 0 (ExtractQ ''Nicotine patch'') = Content (Some nicotine_reply)"
    by (simp add: echo_service_def)
  have plain: "unfence nicotine_reply = nicotine_reply"
    by code_simp
  have parsed: "?reader (unfence nicotine_reply) = Some (PyDict nicotine_dict)"
    by (simp add: plain table_reader_def)
  have patch: "is_patch ''Nicotine patch''"
    by code_simp
  have implicit: "re_search True patch_duration_pattern ''Nicotine patch'' = None"
    by code_simp
  have given: "map_of nicotine_dict ''duration'' = Some (PyStr ''16 Hours'')"
    by (simp add: nicotine_dict_def)
  have nonempty: "truthy (PyStr ''16 Hours'')"
    by simp
  have odd: "\<not> canonical_duration ''16 Hours''"
    by code_simp
  have cleaned: "clean_duration ''16 Hours'' = ''16 hours''"
    by code_simp
  show ?thesis
    using model_duration_kept
            [where svc = "?svc" and json_loads = "?reader" and n = 0
               and medicine_string = "''Nicotine patch''" and response_text = nicotine_reply
               and d = nicotine_dict and v = "PyStr ''16 Hours''",
             OF reply parsed patch implicit given nonempty]
          odd cleaned
    by simp
qed

subsection \<open>The batch\<close>

text \<open>
  Claim C8. When the reply for an item parses to a dict without the key \<^verbatim>\<open>name\<close>,
  \<^verbatim>\<open>components['name']\<close> raises \<^verbatim>\<open>KeyError\<close> and the loop returns no list, whatever was
  processed before and whatever follows.
\<close>

theorem missing_name_raises:
  assumes reply: "svc n (ExtractQ (NM medicine)) = Content (Some response_text)"
      and parsed: "json_loads (unfence response_text) = Some (PyDict d)"
      and nameless: "map_of d ''name'' = None"
  shows "process_loop svc json_loads n (medicine # rest) processed_medicines = Inl KeyError"
proof -
  obtain components n' where
    c: "extract_components svc json_loads n (NM medicine) = (components, n')"
    by (cases "extract_components svc json_loads n (NM medicine)")
  have "map_of (fst (extract_components svc json_loads n (NM medicine))) ''name'' =
        map_of d ''name''"
    using reply parsed by (rule extract_components_parsed_key) simp_all
  with c nameless have "subscript components ''name'' = Inl KeyError"
    by (simp add: subscript_def)
  with c show ?thesis
    by simp
qed

theorem missing_name_raises_witness:
  "process_medicine_list (echo_service nameless_reply)
     (table_reader [(nameless_reply, PyDict nameless_dict)]) 0
     [\<lparr>NM = ''Aspirin 75mg tablets'', VPID = PyStr ''1''\<rparr>,
      \<lparr>NM = ''Ibuprofen 200mg capsules'', VPID = PyStr ''2''\<rparr>] = Inl KeyError"
proof -
  let ?svc = "echo_service nameless_reply"
  let ?reader = "table_reader [(nameless_reply, PyDict nameless_dict)]"
  let ?m = "\<lparr>NM = ''Aspirin 75mg tablets'', VPID = PyStr ''1''\<rparr>"
  have reply: "?svc 0 (ExtractQ (NM ?m)) = Content (Some nameless_reply)"
    by (simp add: echo_service_def)
  have plain: "unfence nameless_reply = nameless_reply"
    by code_simp
  have parsed: "?reader (unfence nameless_reply) = Some (PyDict nameless_dict)"
    by (simp add: plain table_reader_def)
  have nameless: "map_of nameless_dict ''name'' = None"
    by (simp add: nameless_dict_def)
  show ?thesis
    unfolding process_medicine_list_def
    by (rule missing_name_raises
              [where svc = "?svc" and json_loads = "?reader" and n = 0 and medicine = "?m"
                 and response_text = nameless_reply and d = nameless_dict,
               OF reply parsed nameless])
qed

text \<open>
  A batch of three whose second call raises keeps its three items: the second one is what
  the pattern extractor gives, and only the patch carries a duration.
\<close>

lemma batch_with_failed_call:
  "process_medicine_list (second_call_fails name_x_body)
     (table_reader [(name_x_body, PyDict [(''name'', PyStr ''X'')])]) 0
     [\<lparr>NM = ''Aspirin 75mg tablets'', VPID = PyStr ''1''\<rparr>,
      \<lparr>NM = ''Ibuprofen 200mg capsules'', VPID = PyStr ''2''\<rparr>,
      \<lparr>NM = ''Fentanyl 72 hour patch'', VPID = PyStr ''3''\<rparr>] =
   Inr [[(''VPID'', PyStr ''1''), (''original_name'', PyStr ''Aspirin 75mg tablets''),
         (''name'', PyStr ''X''), (''strength'', PyStr ''75mg''),
         (''formulation'', PyStr ''tablets'')],
        [(''VPID'', PyStr ''2''), (''original_name'', PyStr ''Ibuprofen 200mg capsules''),
         (''name'', PyStr ''Ibuprofen''), (''strength'', PyStr ''200mg''),
         (''formulation'', PyStr ''capsules'')],
        [(''VPID'', PyStr ''3''), (''original_name'', PyStr ''Fentanyl 72 hour patch''),
         (''name'', PyStr ''X''), (''strength'', PyStr []),
         (''formulation'', PyStr []), (''duration'', PyStr ''72 hours'')]]"
  by code_simp

end
